theory Spec2Isabelle
  imports Complex_Main "HOL-Library.Log_Nat"
begin

section \<open>Host values\<close>

text \<open>
  SQLite \<open>INTEGER\<close> columns are \<open>int\<close>. A nullable column is an \<open>option\<close>. Strings are
  byte lists (the UTF-8 text that SQLite stores and compares).

  \<open>REAL\<close> columns (credits, prices) and JavaScript numbers are IEEE 754 binary64
  values. One is held as the rational number it denotes, so comparing two of them is
  comparing the rationals; a sum is the exact sum rounded to the nearest binary64 value,
  ties to the even significand (\<open>to_double\<close>). Infinities, NaN and the sign of zero are
  outside the model: no sum here comes near the largest double.
\<close>

definition pow2 :: "int \<Rightarrow> rat" where
  "pow2 k = (if 0 \<le> k then 2 ^ nat k else 1 / 2 ^ nat (- k))"

definition binade :: "rat \<Rightarrow> int" where
  \<comment> \<open>For \<open>x > 0\<close>, the exponent \<open>e\<close> with \<open>2^e \<le> x < 2^(e+1)\<close>: with \<open>x = a / b\<close> it is
      the difference of the bit lengths of \<open>a\<close> and \<open>b\<close>, or one less.\<close>
  "binade x =
     (case quotient_of x of (a, b) \<Rightarrow>
        (if pow2 (bitlen a - bitlen b) \<le> x then bitlen a - bitlen b
         else bitlen a - bitlen b - 1))"

definition round_half_even :: "rat \<Rightarrow> int" where
  "round_half_even m =
     (if m - of_int \<lfloor>m\<rfloor> < 1 / 2 then \<lfloor>m\<rfloor>
      else if 1 / 2 < m - of_int \<lfloor>m\<rfloor> then \<lfloor>m\<rfloor> + 1
      else if even \<lfloor>m\<rfloor> then \<lfloor>m\<rfloor> else \<lfloor>m\<rfloor> + 1)"

definition to_double :: "rat \<Rightarrow> rat" where
  \<comment> \<open>The binary64 value nearest to \<open>x\<close>: 53 significant bits, so the spacing at \<open>x\<close> is
      \<open>2^(e - 52)\<close> for the binade \<open>e\<close> of \<open>|x|\<close>, and \<open>2^(-1074)\<close> below the normal
      range. It is also what \<open>parseFloat\<close> makes of a decimal numeral.\<close>
  "to_double x =
     (if x = 0 then 0
      else sgn x * of_int (round_half_even (\<bar>x\<bar> / pow2 (max (binade \<bar>x\<bar>) (- 1022) - 52)))
             * pow2 (max (binade \<bar>x\<bar>) (- 1022) - 52))"

definition truthy :: "int \<Rightarrow> bool" where
  \<comment> \<open>JavaScript truthiness of a number read from an INTEGER column.\<close>
  "truthy n = (n \<noteq> 0)"

definition upper_char :: "char \<Rightarrow> char" where
  "upper_char c =
     (case map_of (zip ''abcdefghijklmnopqrstuvwxyz'' ''ABCDEFGHIJKLMNOPQRSTUVWXYZ'') c of
        None \<Rightarrow> c
      | Some u \<Rightarrow> u)"

definition ascii_toUpperCase :: "string \<Rightarrow> string" where
  \<comment> \<open>What \<open>String.prototype.toUpperCase\<close> does to ASCII text: the letters a-z are
      mapped to A-Z, every other character is kept. The built-in itself is a parameter of
      the model (\<open>toUpperCase\<close> of the world); this function stands for it in the examples,
      which use ASCII codes only.\<close>
  "ascii_toUpperCase s = map upper_char s"

definition is_space :: "char \<Rightarrow> bool" where
  \<comment> \<open>The ASCII white space that \<open>String.prototype.trim\<close> removes.\<close>
  "is_space c = (c \<in> set [CHR '' '', CHR 0x09, CHR 0x0A, CHR 0x0B, CHR 0x0C, CHR 0x0D])"

definition trim :: "string \<Rightarrow> string" where
  "trim s = rev (dropWhile is_space (rev (dropWhile is_space s)))"

datatype json =
    JNull
  | JBool bool
  | JNum rat
  | JStr string
  | JArr "json list"
  | JObj "(string \<times> json) list"

section \<open>Persisted state (database.js)\<close>

record user =
  u_id :: nat
  u_email :: string
  u_credits :: rat
  u_pterodactyl_id :: "int option"

record gift_card =
  gc_id :: nat
  gc_code :: string
  gc_credits :: rat
  gc_max_uses :: int
  gc_uses :: int
  gc_per_user_limit :: int
  gc_enabled :: int
  gc_expires_at :: "int option"

record redemption =
  rd_user_id :: nat
  rd_gift_card_id :: nat
  rd_credits_received :: rat

record server_plan =
  sp_id :: nat
  sp_name :: string
  sp_price :: rat
  sp_cpu :: int
  sp_ram :: int
  sp_disk :: int
  sp_swap :: int
  sp_io :: int
  sp_databases :: int
  sp_backups :: int
  sp_allocations :: int
  sp_egg_id :: int
  sp_location_ids :: string
  sp_docker_image :: "string option"
  sp_startup_command :: "string option"
  sp_environment_variables :: "string option"
  sp_user_limit :: int
  sp_stock_limit :: int
  sp_stock_used :: int
  sp_enabled :: int

record user_server =
  us_user_id :: nat
  us_plan_id :: nat
  us_pterodactyl_server_id :: int
  us_server_name :: string
  us_server_identifier :: string
  us_status :: string

text \<open>
  The store: one list of rows per table, in insertion order. \<open>db.get\<close> returns the first
  row that matches, an \<open>UPDATE\<close> changes every row that matches, an \<open>INSERT\<close> appends.
\<close>

record db =
  users :: "user list"
  gift_cards :: "gift_card list"
  gift_card_redemptions :: "redemption list"
  server_plans :: "server_plan list"
  user_servers :: "user_server list"

datatype db_call =
    GetUserById
  | UpdateUserCredits
  | GetGiftCard
  | IncrementGiftCardUses
  | GetUserRedemptions
  | RedeemGiftCard
  | GetPlanById
  | IncrementPlanStock
  | CreateUserServer
  | GetUserServerCount

datatype js_error = SqliteError db_call | TypeError

record server_limits =
  lim_memory :: int
  lim_disk :: int
  lim_cpu :: int
  lim_swap :: int
  lim_io :: int

record server_feature_limits =
  fl_databases :: int
  fl_backups :: int
  fl_allocations :: int

record server_data =
  sd_name :: string
  sd_user :: int
  sd_egg :: int
  sd_docker_image :: string
  sd_startup :: "string option"
  sd_environment :: json
  sd_limits :: server_limits
  sd_feature_limits :: server_feature_limits
  sd_deploy_locations :: "int list"
  sd_deploy_dedicated_ip :: bool
  sd_deploy_port_range :: "int list"

record server_attributes =
  sa_id :: int
  sa_identifier :: string

text \<open>
  What a handler cannot decide by itself: the clock, which calls of the store reject
  (the \<open>err\<close> of the sqlite3 callback), the built-ins \<open>String.prototype.toUpperCase\<close>
  (Unicode case mapping), \<open>JSON.parse\<close> (\<open>None\<close>: it throws) and \<open>parseInt\<close> (\<open>None\<close>:
  NaN), the random password, and the answers of the panel's REST API to \<open>POST /users\<close>
  and \<open>POST /servers\<close> (\<open>Inl\<close>: the request fails with this message).
\<close>

record world =
  now :: int
  db_fails :: "db_call \<Rightarrow> bool"
  toUpperCase :: "string \<Rightarrow> string"
  JSON_parse :: "string \<Rightarrow> json option"
  parseInt :: "string \<Rightarrow> int option"
  random_password :: string
  post_users :: "string \<Rightarrow> string \<Rightarrow> string + int"
  post_servers :: "server_data \<Rightarrow> string + server_attributes"

definition getUserById :: "world \<Rightarrow> db \<Rightarrow> nat \<Rightarrow> js_error + user option" where
  "getUserById w d i =
     (if db_fails w GetUserById then Inl (SqliteError GetUserById)
      else Inr (find (\<lambda>u. u_id u = i) (users d)))"

definition add_credits :: "db \<Rightarrow> nat \<Rightarrow> rat \<Rightarrow> db" where
  \<comment> \<open>\<open>UPDATE users SET credits = credits + ? WHERE id = ?\<close>, a sum of two doubles\<close>
  "add_credits d i delta =
     d\<lparr>users :=
        map (\<lambda>u. if u_id u = i then u\<lparr>u_credits := to_double (u_credits u + delta)\<rparr> else u)
          (users d)\<rparr>"

definition updateUserCredits :: "world \<Rightarrow> db \<Rightarrow> nat \<Rightarrow> rat \<Rightarrow> js_error + db" where
  "updateUserCredits w d i delta =
     (if db_fails w UpdateUserCredits then Inl (SqliteError UpdateUserCredits)
      else Inr (add_credits d i delta))"

definition getGiftCard :: "world \<Rightarrow> db \<Rightarrow> string \<Rightarrow> js_error + gift_card option" where
  \<comment> \<open>\<open>SELECT * FROM gift_cards WHERE code = ?\<close>\<close>
  "getGiftCard w d c =
     (if db_fails w GetGiftCard then Inl (SqliteError GetGiftCard)
      else Inr (find (\<lambda>g. gc_code g = c) (gift_cards d)))"

definition increment_uses :: "db \<Rightarrow> nat \<Rightarrow> db" where
  \<comment> \<open>\<open>UPDATE gift_cards SET uses = uses + 1 WHERE id = ?\<close>\<close>
  "increment_uses d i =
     d\<lparr>gift_cards :=
        map (\<lambda>g. if gc_id g = i then g\<lparr>gc_uses := gc_uses g + 1\<rparr> else g) (gift_cards d)\<rparr>"

definition incrementGiftCardUses :: "world \<Rightarrow> db \<Rightarrow> nat \<Rightarrow> js_error + db" where
  "incrementGiftCardUses w d i =
     (if db_fails w IncrementGiftCardUses then Inl (SqliteError IncrementGiftCardUses)
      else Inr (increment_uses d i))"

definition getUserRedemptions :: "world \<Rightarrow> db \<Rightarrow> nat \<Rightarrow> nat \<Rightarrow> js_error + int" where
  \<comment> \<open>\<open>SELECT COUNT(*) FROM gift_card_redemptions WHERE user_id = ? AND gift_card_id = ?\<close>\<close>
  "getUserRedemptions w d uid gid =
     (if db_fails w GetUserRedemptions then Inl (SqliteError GetUserRedemptions)
      else Inr (int (length (filter (\<lambda>r. rd_user_id r = uid \<and> rd_gift_card_id r = gid)
                               (gift_card_redemptions d)))))"

definition insert_redemption :: "db \<Rightarrow> nat \<Rightarrow> nat \<Rightarrow> rat \<Rightarrow> db" where
  \<comment> \<open>\<open>INSERT INTO gift_card_redemptions (user_id, gift_card_id, credits_received)\<close>\<close>
  "insert_redemption d uid gid c =
     d\<lparr>gift_card_redemptions := gift_card_redemptions d @
        [\<lparr>rd_user_id = uid, rd_gift_card_id = gid, rd_credits_received = c\<rparr>]\<rparr>"

definition redeemGiftCard :: "world \<Rightarrow> db \<Rightarrow> nat \<Rightarrow> nat \<Rightarrow> rat \<Rightarrow> js_error + db" where
  "redeemGiftCard w d uid gid c =
     (if db_fails w RedeemGiftCard then Inl (SqliteError RedeemGiftCard)
      else Inr (insert_redemption d uid gid c))"

section \<open>Redeeming a gift card (routes/dashboard.js, POST /redeem)\<close>

record redeem_req =
  rq_session_userId :: nat
  rq_code :: "string option"

datatype redeem_outcome =
    RedirectLogin
  | RenderError string
  | RenderSuccess rat rat
  | RedirectRedeem

text \<open>
  \<open>RenderError m\<close> renders the page with \<open>error: m\<close>; \<open>RenderSuccess c b\<close> renders it with
  the credited amount \<open>c\<close> and the balance \<open>b\<close> read back; \<open>RedirectRedeem\<close> is the
  handler's \<open>catch\<close>. The five messages of the checks, under the names the specification
  gives the outcomes:
\<close>

definition InvalidCode :: redeem_outcome where
  "InvalidCode = RenderError ''Invalid gift card code''"

definition CardDisabled :: redeem_outcome where
  "CardDisabled = RenderError ''This gift card is no longer active''"

definition CardExpired :: redeem_outcome where
  "CardExpired = RenderError ''This gift card has expired''"

definition UsageLimitReached :: redeem_outcome where
  "UsageLimitReached = RenderError ''This gift card has reached its usage limit''"

definition PerUserLimitReached :: redeem_outcome where
  "PerUserLimitReached =
     RenderError ''You have already redeemed this gift card the maximum number of times''"

definition expired :: "world \<Rightarrow> gift_card \<Rightarrow> bool" where
  \<comment> \<open>\<open>giftCard.expires_at && new Date(giftCard.expires_at) < new Date()\<close>; the column is
      held as the time it parses to, \<open>None\<close> when it is NULL, empty or no date.\<close>
  "expired w g = (case gc_expires_at g of None \<Rightarrow> False | Some t \<Rightarrow> t < now w)"

text \<open>
  The handler is a sequence of awaited calls. A program point names the call that is
  awaited next and holds the handler's local variables; one step performs that call on
  the shared store and runs the synchronous code up to the next \<open>await\<close>.
\<close>

datatype redeem_pc =
    RGetUserById
  | RGetGiftCard user string
  | RGetUserRedemptions user gift_card
  | RUpdateUserCredits user gift_card
  | RIncrementGiftCardUses user gift_card
  | RRedeemGiftCard user gift_card
  | RGetUpdatedUser user gift_card
  | RDone redeem_outcome

fun redeem_step :: "world \<Rightarrow> redeem_req \<Rightarrow> redeem_pc \<times> db \<Rightarrow> redeem_pc \<times> db" where
  "redeem_step w req (RGetUserById, d) =
     (case getUserById w d (rq_session_userId req) of
        Inl e \<Rightarrow> (RDone RedirectRedeem, d)
      | Inr None \<Rightarrow> (RDone RedirectLogin, d)
      | Inr (Some u) \<Rightarrow>
          (case rq_code req of
             None \<Rightarrow> (RDone RedirectRedeem, d)
           | Some c \<Rightarrow> (RGetGiftCard u (toUpperCase w c), d)))"
| "redeem_step w req (RGetGiftCard u c, d) =
     (case getGiftCard w d c of
        Inl e \<Rightarrow> (RDone RedirectRedeem, d)
      | Inr None \<Rightarrow> (RDone InvalidCode, d)
      | Inr (Some g) \<Rightarrow>
          if \<not> truthy (gc_enabled g) then (RDone CardDisabled, d)
          else if expired w g then (RDone CardExpired, d)
          else if gc_uses g \<ge> gc_max_uses g then (RDone UsageLimitReached, d)
          else (RGetUserRedemptions u g, d))"
| "redeem_step w req (RGetUserRedemptions u g, d) =
     (case getUserRedemptions w d (u_id u) (gc_id g) of
        Inl e \<Rightarrow> (RDone RedirectRedeem, d)
      | Inr n \<Rightarrow>
          if n \<ge> gc_per_user_limit g then (RDone PerUserLimitReached, d)
          else (RUpdateUserCredits u g, d))"
| "redeem_step w req (RUpdateUserCredits u g, d) =
     (case updateUserCredits w d (u_id u) (gc_credits g) of
        Inl e \<Rightarrow> (RDone RedirectRedeem, d)
      | Inr d' \<Rightarrow> (RIncrementGiftCardUses u g, d'))"
| "redeem_step w req (RIncrementGiftCardUses u g, d) =
     (case incrementGiftCardUses w d (gc_id g) of
        Inl e \<Rightarrow> (RDone RedirectRedeem, d)
      | Inr d' \<Rightarrow> (RRedeemGiftCard u g, d'))"
| "redeem_step w req (RRedeemGiftCard u g, d) =
     (case redeemGiftCard w d (u_id u) (gc_id g) (gc_credits g) of
        Inl e \<Rightarrow> (RDone RedirectRedeem, d)
      | Inr d' \<Rightarrow> (RGetUpdatedUser u g, d'))"
| "redeem_step w req (RGetUpdatedUser u g, d) =
     (case getUserById w d (u_id u) of
        Inl e \<Rightarrow> (RDone RedirectRedeem, d)
      | Inr None \<Rightarrow> (RDone RedirectRedeem, d)
      | Inr (Some u') \<Rightarrow> (RDone (RenderSuccess (gc_credits g) (u_credits u')), d))"
| "redeem_step w req (RDone out, d) = (RDone out, d)"

definition redeem :: "world \<Rightarrow> redeem_req \<Rightarrow> db \<Rightarrow> redeem_pc \<times> db" where
  \<comment> \<open>One request run alone: the handler awaits at most seven calls.\<close>
  "redeem w req d = (redeem_step w req ^^ 7) (RGetUserById, d)"

definition redeem_from :: "world \<Rightarrow> redeem_req \<Rightarrow> redeem_pc \<Rightarrow> db \<Rightarrow> redeem_pc \<times> db" where
  \<comment> \<open>The rest of a request from a program point on.\<close>
  "redeem_from w req pc d = (redeem_step w req ^^ 7) (pc, d)"

text \<open>
  Requests that overlap in time: every \<open>await\<close> hands control back to the event loop, so
  the calls of several requests on the one store are interleaved. A schedule names, step
  by step, the request that performs its next call.
\<close>

definition redeem_sys_step ::
  "world \<Rightarrow> redeem_req list \<Rightarrow> nat \<Rightarrow> redeem_pc list \<times> db \<Rightarrow> redeem_pc list \<times> db" where
  "redeem_sys_step w reqs i s =
     (case s of (pcs, d) \<Rightarrow>
        if i < length pcs \<and> i < length reqs
        then (case redeem_step w (reqs ! i) (pcs ! i, d) of (pc', d') \<Rightarrow> (pcs[i := pc'], d'))
        else (pcs, d))"

definition redeem_interleaved ::
  "world \<Rightarrow> redeem_req list \<Rightarrow> nat list \<Rightarrow> db \<Rightarrow> redeem_pc list \<times> db" where
  "redeem_interleaved w reqs sched d =
     fold (redeem_sys_step w reqs) sched (map (\<lambda>r. RGetUserById) reqs, d)"

section \<open>The panel adapter (pterodactyl.js)\<close>

datatype gateway_call =
    CallCreateUser string string
  | CallCreateServer server_data

definition json_falsy :: "json \<Rightarrow> bool" where
  "json_falsy j = (j = JNull \<or> j = JBool False \<or> j = JNum 0 \<or> j = JStr [])"

definition createUser :: "world \<Rightarrow> string \<Rightarrow> string \<Rightarrow> string + int" where
  \<comment> \<open>\<open>PterodactylAPI.createUser\<close>: \<open>Inr\<close> is \<open>{success: true, data: {id}}\<close>, \<open>Inl\<close> is
      \<open>{success: false, error}\<close>; the adapter catches what the request throws.\<close>
  "createUser w email password = post_users w email password"

definition createServer :: "world \<Rightarrow> server_data \<Rightarrow> string + server_attributes" where
  \<comment> \<open>\<open>PterodactylAPI.createServer\<close>: the body sent has \<open>environment || {}\<close>.\<close>
  "createServer w sd =
     post_servers w
       (sd\<lparr>sd_environment := (if json_falsy (sd_environment sd) then JObj [] else sd_environment sd)\<rparr>)"

section \<open>Purchasing an instance (routes/dashboard.js, POST /instances/purchase)\<close>

definition getPlanById :: "world \<Rightarrow> db \<Rightarrow> nat \<Rightarrow> js_error + server_plan option" where
  "getPlanById w d i =
     (if db_fails w GetPlanById then Inl (SqliteError GetPlanById)
      else Inr (find (\<lambda>p. sp_id p = i) (server_plans d)))"

definition getUserServerCount :: "world \<Rightarrow> db \<Rightarrow> nat \<Rightarrow> nat \<Rightarrow> js_error + int" where
  \<comment> \<open>\<open>SELECT COUNT(*) FROM user_servers WHERE user_id = ? AND plan_id = ? AND status = "active"\<close>\<close>
  "getUserServerCount w d uid pid =
     (if db_fails w GetUserServerCount then Inl (SqliteError GetUserServerCount)
      else Inr (int (length (filter
        (\<lambda>s. us_user_id s = uid \<and> us_plan_id s = pid \<and> us_status s = ''active'')
        (user_servers d)))))"

definition increment_stock :: "db \<Rightarrow> nat \<Rightarrow> db" where
  \<comment> \<open>\<open>UPDATE server_plans SET stock_used = stock_used + 1 WHERE id = ?\<close>\<close>
  "increment_stock d i =
     d\<lparr>server_plans :=
        map (\<lambda>p. if sp_id p = i then p\<lparr>sp_stock_used := sp_stock_used p + 1\<rparr> else p)
          (server_plans d)\<rparr>"

definition incrementPlanStock :: "world \<Rightarrow> db \<Rightarrow> nat \<Rightarrow> js_error + db" where
  "incrementPlanStock w d i =
     (if db_fails w IncrementPlanStock then Inl (SqliteError IncrementPlanStock)
      else Inr (increment_stock d i))"

definition insert_user_server :: "db \<Rightarrow> user_server \<Rightarrow> db" where
  \<comment> \<open>\<open>INSERT INTO user_servers (...)\<close>, with \<open>status || 'active'\<close>\<close>
  "insert_user_server d s =
     d\<lparr>user_servers := user_servers d @
        [s\<lparr>us_status := (if us_status s = [] then ''active'' else us_status s)\<rparr>]\<rparr>"

definition createUserServer :: "world \<Rightarrow> db \<Rightarrow> user_server \<Rightarrow> js_error + db" where
  "createUserServer w d s =
     (if db_fails w CreateUserServer then Inl (SqliteError CreateUserServer)
      else Inr (insert_user_server d s))"

definition linkPterodactylUser :: "world \<Rightarrow> db \<Rightarrow> nat \<Rightarrow> int \<Rightarrow> js_error + db" where
  \<comment> \<open>The handler calls \<open>db.linkPterodactylUser\<close>. Class \<open>Database\<close> has no method of this
      name (the one that writes the column is \<open>updatePterodactylId\<close>), so the call raises
      a TypeError and nothing is written.\<close>
  "linkPterodactylUser w d uid pid = Inl TypeError"

record purchase_req =
  pq_session_userId :: nat
  pq_plan_id :: "nat option"
  pq_server_name :: "string option"

datatype purchase_outcome =
    MissingFields
  | PlanUnavailable
  | InsufficientCredits
  | UserLimitReached
  | OutOfStock
  | ProvisioningAccountFailed
  | ProvisioningInstanceFailed string
  | PurchaseSuccess string
  | PurchaseError

text \<open>
  Each outcome is a redirect of the handler: \<open>MissingFields\<close> "Missing required fields",
  \<open>PlanUnavailable\<close> "Invalid plan", \<open>InsufficientCredits\<close> "Insufficient credits",
  \<open>UserLimitReached\<close> "You have reached the maximum limit for this plan", \<open>OutOfStock\<close>
  "This plan is out of stock", \<open>ProvisioningAccountFailed\<close> "Failed to create panel
  account", \<open>ProvisioningInstanceFailed e\<close> "Server creation failed: e",
  \<open>PurchaseSuccess n\<close> the dashboard with "Server n created successfully!", and
  \<open>PurchaseError\<close> the handler's \<open>catch\<close>, "An error occurred during purchase".
\<close>

fun split_comma :: "string \<Rightarrow> string list" where
  "split_comma [] = [[]]"
| "split_comma (c # cs) =
     (if c = CHR '','' then [] # split_comma cs
      else (case split_comma cs of [] \<Rightarrow> [[c]] | x # xs \<Rightarrow> (c # x) # xs))"

definition parse_environment :: "world \<Rightarrow> server_plan \<Rightarrow> json" where
  \<comment> \<open>\<open>let environment = {}; if (plan.environment_variables) try { environment =
      JSON.parse(...) } catch (e) { log }\<close>\<close>
  "parse_environment w p =
     (case sp_environment_variables p of
        None \<Rightarrow> JObj []
      | Some s \<Rightarrow>
          if s = [] then JObj []
          else (case JSON_parse w s of None \<Rightarrow> JObj [] | Some j \<Rightarrow> j))"

definition parse_location_ids :: "world \<Rightarrow> string \<Rightarrow> int list" where
  \<comment> \<open>\<open>split(',').map(id => parseInt(id.trim())).filter(id => !isNaN(id))\<close>\<close>
  "parse_location_ids w s = List.map_filter (\<lambda>x. parseInt w (trim x)) (split_comma s)"

definition default_docker_image :: string where
  "default_docker_image = ''ghcr.io/pterodactyl/yolks:java_17''"

definition serverData :: "world \<Rightarrow> string \<Rightarrow> int \<Rightarrow> server_plan \<Rightarrow> server_data" where
  "serverData w server_name ptero_id p =
     \<lparr>sd_name = server_name,
      sd_user = ptero_id,
      sd_egg = sp_egg_id p,
      sd_docker_image =
        (case sp_docker_image p of
           None \<Rightarrow> default_docker_image
         | Some i \<Rightarrow> if i = [] then default_docker_image else i),
      sd_startup =
        (case sp_startup_command p of None \<Rightarrow> None | Some c \<Rightarrow> if c = [] then None else Some c),
      sd_environment = parse_environment w p,
      sd_limits = \<lparr>lim_memory = sp_ram p, lim_disk = sp_disk p, lim_cpu = sp_cpu p,
                    lim_swap = sp_swap p, lim_io = sp_io p\<rparr>,
      sd_feature_limits = \<lparr>fl_databases = sp_databases p, fl_backups = sp_backups p,
                            fl_allocations = sp_allocations p\<rparr>,
      sd_deploy_locations = parse_location_ids w (sp_location_ids p),
      sd_deploy_dedicated_ip = False,
      sd_deploy_port_range = []\<rparr>"

datatype purchase_pc =
    PGetUserById
  | PGetPlanById user nat string
  | PGetUserServerCount user nat string server_plan
  | PCreateUser user nat string server_plan
  | PCreateServer user nat string server_plan server_data
  | PUpdateUserCredits user nat string server_plan server_attributes
  | PIncrementPlanStock user nat string server_plan server_attributes
  | PCreateUserServer user nat string server_plan server_attributes
  | PDone purchase_outcome

definition ensure_account ::
  "world \<Rightarrow> user \<Rightarrow> nat \<Rightarrow> string \<Rightarrow> server_plan \<Rightarrow> purchase_pc" where
  \<comment> \<open>\<open>if (!user.pterodactyl_id)\<close>: the panel account is created first; otherwise the
      request for the server is built and sent.\<close>
  "ensure_account w u pid name p =
     (case u_pterodactyl_id u of
        None \<Rightarrow> PCreateUser u pid name p
      | Some n \<Rightarrow>
          if n = 0 then PCreateUser u pid name p
          else PCreateServer u pid name p (serverData w name n p))"

definition check_stock_and_account ::
  "world \<Rightarrow> user \<Rightarrow> nat \<Rightarrow> string \<Rightarrow> server_plan \<Rightarrow> purchase_pc" where
  \<comment> \<open>The synchronous code from the stock check to the next awaited panel call.\<close>
  "check_stock_and_account w u pid name p =
     (if sp_stock_limit p > 0 \<and> sp_stock_used p \<ge> sp_stock_limit p then PDone OutOfStock
      else ensure_account w u pid name p)"

type_synonym purchase_state = "purchase_pc \<times> gateway_call list \<times> db"

fun purchase_step :: "world \<Rightarrow> purchase_req \<Rightarrow> purchase_state \<Rightarrow> purchase_state" where
  "purchase_step w req (PGetUserById, cs, d) =
     (case getUserById w d (pq_session_userId req) of
        Inl e \<Rightarrow> (PDone PurchaseError, cs, d)
      | Inr None \<Rightarrow> (PDone MissingFields, cs, d)
      | Inr (Some u) \<Rightarrow>
          (case pq_plan_id req of
             None \<Rightarrow> (PDone MissingFields, cs, d)
           | Some pid \<Rightarrow>
               (case pq_server_name req of
                  None \<Rightarrow> (PDone MissingFields, cs, d)
                | Some name \<Rightarrow>
                    if name = [] then (PDone MissingFields, cs, d)
                    else (PGetPlanById u pid name, cs, d))))"
| "purchase_step w req (PGetPlanById u pid name, cs, d) =
     (case getPlanById w d pid of
        Inl e \<Rightarrow> (PDone PurchaseError, cs, d)
      | Inr None \<Rightarrow> (PDone PlanUnavailable, cs, d)
      | Inr (Some p) \<Rightarrow>
          if \<not> truthy (sp_enabled p) then (PDone PlanUnavailable, cs, d)
          else if u_credits u < sp_price p then (PDone InsufficientCredits, cs, d)
          else if sp_user_limit p > 0 then (PGetUserServerCount u pid name p, cs, d)
          else (check_stock_and_account w u pid name p, cs, d))"
| "purchase_step w req (PGetUserServerCount u pid name p, cs, d) =
     (case getUserServerCount w d (u_id u) pid of
        Inl e \<Rightarrow> (PDone PurchaseError, cs, d)
      | Inr n \<Rightarrow>
          if n \<ge> sp_user_limit p then (PDone UserLimitReached, cs, d)
          else (check_stock_and_account w u pid name p, cs, d))"
| "purchase_step w req (PCreateUser u pid name p, cs, d) =
     (case createUser w (u_email u) (random_password w) of
        Inl err \<Rightarrow>
          (PDone ProvisioningAccountFailed, cs @ [CallCreateUser (u_email u) (random_password w)], d)
      | Inr ptero_id \<Rightarrow>
          (case linkPterodactylUser w d (u_id u) ptero_id of
             Inl e \<Rightarrow>
               (PDone PurchaseError, cs @ [CallCreateUser (u_email u) (random_password w)], d)
           | Inr d' \<Rightarrow>
               (PCreateServer (u\<lparr>u_pterodactyl_id := Some ptero_id\<rparr>) pid name p
                  (serverData w name ptero_id p),
                cs @ [CallCreateUser (u_email u) (random_password w)], d')))"
| "purchase_step w req (PCreateServer u pid name p sd, cs, d) =
     (case createServer w sd of
        Inl err \<Rightarrow> (PDone (ProvisioningInstanceFailed err), cs @ [CallCreateServer sd], d)
      | Inr attrs \<Rightarrow> (PUpdateUserCredits u pid name p attrs, cs @ [CallCreateServer sd], d))"
| "purchase_step w req (PUpdateUserCredits u pid name p attrs, cs, d) =
     (case updateUserCredits w d (u_id u) (- sp_price p) of
        Inl e \<Rightarrow> (PDone PurchaseError, cs, d)
      | Inr d' \<Rightarrow> (PIncrementPlanStock u pid name p attrs, cs, d'))"
| "purchase_step w req (PIncrementPlanStock u pid name p attrs, cs, d) =
     (case incrementPlanStock w d pid of
        Inl e \<Rightarrow> (PDone PurchaseError, cs, d)
      | Inr d' \<Rightarrow> (PCreateUserServer u pid name p attrs, cs, d'))"
| "purchase_step w req (PCreateUserServer u pid name p attrs, cs, d) =
     (case createUserServer w d
             \<lparr>us_user_id = u_id u, us_plan_id = pid, us_pterodactyl_server_id = sa_id attrs,
              us_server_name = name, us_server_identifier = sa_identifier attrs,
              us_status = ''active''\<rparr> of
        Inl e \<Rightarrow> (PDone PurchaseError, cs, d)
      | Inr d' \<Rightarrow> (PDone (PurchaseSuccess name), cs, d'))"
| "purchase_step w req (PDone out, cs, d) = (PDone out, cs, d)"

definition purchase :: "world \<Rightarrow> purchase_req \<Rightarrow> db \<Rightarrow> purchase_state" where
  \<comment> \<open>One request run alone: the handler awaits at most eight calls.\<close>
  "purchase w req d = (purchase_step w req ^^ 8) (PGetUserById, [], d)"

definition purchase_from :: "world \<Rightarrow> purchase_req \<Rightarrow> purchase_pc \<Rightarrow> db \<Rightarrow> purchase_state" where
  \<comment> \<open>The rest of a request from a program point on, no panel call made so far.\<close>
  "purchase_from w req pc d = (purchase_step w req ^^ 8) (pc, [], d)"

definition purchase_sys_step ::
  "world \<Rightarrow> purchase_req list \<Rightarrow> nat \<Rightarrow> (purchase_pc \<times> gateway_call list) list \<times> db
     \<Rightarrow> (purchase_pc \<times> gateway_call list) list \<times> db" where
  "purchase_sys_step w reqs i s =
     (case s of (ls, d) \<Rightarrow>
        if i < length ls \<and> i < length reqs
        then (case purchase_step w (reqs ! i) (fst (ls ! i), snd (ls ! i), d) of
                (pc', cs', d') \<Rightarrow> (ls[i := (pc', cs')], d'))
        else (ls, d))"

definition purchase_interleaved ::
  "world \<Rightarrow> purchase_req list \<Rightarrow> nat list \<Rightarrow> db
     \<Rightarrow> (purchase_pc \<times> gateway_call list) list \<times> db" where
  "purchase_interleaved w reqs sched d =
     fold (purchase_sys_step w reqs) sched (map (\<lambda>r. (PGetUserById, [])) reqs, d)"

section \<open>The cached list of a user's servers (pterodactyl.js, getUserServers)\<close>

record panel_server =
  ps_id :: int
  ps_uuid :: string
  ps_identifier :: string
  ps_name :: string
  ps_description :: "string option"
  ps_limits :: "json option"
  ps_feature_limits :: "json option"

record mapped_server =
  ms_id :: int
  ms_uuid :: string
  ms_identifier :: string
  ms_name :: string
  ms_description :: string
  ms_status :: string
  ms_limits :: json
  ms_feature_limits :: json

record servers_result =
  sr_success :: bool
  sr_error :: "string option"
  sr_servers :: "mapped_server list"

text \<open>
  The answer of the panel to \<open>GET /users/<id>?include=servers\<close>: the request throws, the
  body has no \<open>attributes\<close>, the attributes have no \<open>relationships.servers.data\<close>, or
  they list the servers.
\<close>

datatype users_response =
    HttpError string
  | NoAttributes
  | NoServerList
  | ServerList "panel_server list"

record cache_entry =
  ce_data :: servers_result
  ce_timestamp :: int

text \<open>
  The adapter's \<open>Map\<close>. Its key is \<open>user_servers_<userId>\<close>, one key per user identifier,
  so the map is indexed by the identifier.
\<close>

type_synonym api_cache = "int \<Rightarrow> cache_entry option"

definition cacheTTL :: int where
  "cacheTTL = 60000"

definition getCache :: "world \<Rightarrow> api_cache \<Rightarrow> int \<Rightarrow> servers_result option" where
  \<comment> \<open>\<open>_getCache\<close>: the entry while \<open>Date.now() - cached.timestamp < this.cacheTTL\<close>.\<close>
  "getCache w cache key =
     (case cache key of
        None \<Rightarrow> None
      | Some e \<Rightarrow> if now w - ce_timestamp e < cacheTTL then Some (ce_data e) else None)"

definition setCache :: "world \<Rightarrow> api_cache \<Rightarrow> int \<Rightarrow> servers_result \<Rightarrow> api_cache" where
  "setCache w cache key r = cache(key \<mapsto> \<lparr>ce_data = r, ce_timestamp = now w\<rparr>)"

definition or_default :: "json option \<Rightarrow> json \<Rightarrow> json" where
  \<comment> \<open>\<open>v || dflt\<close> for a field that may be missing.\<close>
  "or_default v dflt = (case v of None \<Rightarrow> dflt | Some j \<Rightarrow> if json_falsy j then dflt else j)"

definition map_server :: "panel_server \<Rightarrow> mapped_server" where
  "map_server s =
     \<lparr>ms_id = ps_id s,
      ms_uuid = ps_uuid s,
      ms_identifier = ps_identifier s,
      ms_name = ps_name s,
      ms_description = (case ps_description s of None \<Rightarrow> [] | Some t \<Rightarrow> t),
      ms_status = ''running'',
      ms_limits = or_default (ps_limits s)
        (JObj [(''cpu'', JNum 0), (''memory'', JNum 0), (''disk'', JNum 0)]),
      ms_feature_limits = or_default (ps_feature_limits s) (JObj [])\<rparr>"

definition getUserServers ::
  "(int \<Rightarrow> users_response) \<Rightarrow> world \<Rightarrow> api_cache \<Rightarrow> int
     \<Rightarrow> servers_result \<times> api_cache \<times> int list" where
  \<comment> \<open>\<open>async getUserServers(userId)\<close>. The result, the cache afterwards, and the requests
      sent to the panel (the user identifiers fetched).\<close>
  "getUserServers panel w cache userId =
     (case getCache w cache userId of
        Some cached \<Rightarrow> (cached, cache, [])
      | None \<Rightarrow>
          (case panel userId of
             HttpError e \<Rightarrow>
               (\<lparr>sr_success = False, sr_error = Some e, sr_servers = []\<rparr>, cache, [userId])
           | NoServerList \<Rightarrow>
               (\<lparr>sr_success = True, sr_error = None, sr_servers = []\<rparr>, cache, [userId])
           | ServerList ss \<Rightarrow>
               (\<lparr>sr_success = True, sr_error = None, sr_servers = map map_server ss\<rparr>,
                setCache w cache userId
                  \<lparr>sr_success = True, sr_error = None, sr_servers = map map_server ss\<rparr>,
                [userId])
           | NoAttributes \<Rightarrow>
               (\<lparr>sr_success = True, sr_error = None, sr_servers = []\<rparr>,
                setCache w cache userId \<lparr>sr_success = True, sr_error = None, sr_servers = []\<rparr>,
                [userId])))"

definition getUserServers_bypass ::
  "(int \<Rightarrow> users_response) \<Rightarrow> world \<Rightarrow> api_cache \<Rightarrow> int \<Rightarrow> bool
     \<Rightarrow> servers_result \<times> api_cache \<times> int list" where
  \<comment> \<open>The call \<open>pterodactyl.getUserServers(user.pterodactyl_id, true)\<close> of
      \<open>POST /api/sync-servers\<close>, commented "Force fresh fetch from Pterodactyl (bypass any
      caching)". The method declares the one parameter \<open>userId\<close>; a second argument is
      bound to nothing.\<close>
  "getUserServers_bypass panel w cache userId bypassCache = getUserServers panel w cache userId"

section \<open>A concrete store\<close>

definition example_world :: world where
  "example_world =
     \<lparr>now = 1000,
      db_fails = (\<lambda>c. False),
      toUpperCase = ascii_toUpperCase,
      JSON_parse = (\<lambda>s. None),
      parseInt = (\<lambda>s. if s = ''1'' then Some 1 else None),
      random_password = ''k3x9'',
      post_users = (\<lambda>email password. Inr 77),
      post_servers = (\<lambda>sd. Inr \<lparr>sa_id = 501, sa_identifier = ''a1b2c3d4''\<rparr>)\<rparr>"

definition alice :: user where
  "alice = \<lparr>u_id = 1, u_email = ''alice@example.org'', u_credits = 20, u_pterodactyl_id = Some 11\<rparr>"

definition bob :: user where
  "bob = \<lparr>u_id = 2, u_email = ''bob@example.org'', u_credits = 20, u_pterodactyl_id = Some 12\<rparr>"

definition carol :: user where
  "carol = \<lparr>u_id = 3, u_email = ''carol@example.org'', u_credits = 3, u_pterodactyl_id = None\<rparr>"

definition save10 :: gift_card where
  "save10 =
     \<lparr>gc_id = 1, gc_code = ''SAVE10'', gc_credits = 10, gc_max_uses = 1, gc_uses = 0,
      gc_per_user_limit = 1, gc_enabled = 1, gc_expires_at = None\<rparr>"

definition basic_plan :: server_plan where
  "basic_plan =
     \<lparr>sp_id = 1, sp_name = ''Basic'', sp_price = 5, sp_cpu = 100, sp_ram = 1024, sp_disk = 5120,
      sp_swap = 0, sp_io = 500, sp_databases = 0, sp_backups = 0, sp_allocations = 1,
      sp_egg_id = 3, sp_location_ids = ''1'', sp_docker_image = None, sp_startup_command = None,
      sp_environment_variables = Some ''{SERVER_JARFILE: server.jar'',
      sp_user_limit = 0, sp_stock_limit = 1, sp_stock_used = 0, sp_enabled = 1\<rparr>"

definition example_db :: db where
  "example_db =
     \<lparr>users = [alice, bob, carol],
      gift_cards = [save10],
      gift_card_redemptions = [],
      server_plans = [basic_plan],
      user_servers = []\<rparr>"

text \<open>
  A store with decimal amounts: Dave's balance is the double written \<open>1.2\<close>, the Micro
  plan's price the double written \<open>0.3\<close>.
\<close>

definition dave :: user where
  "dave =
     \<lparr>u_id = 4, u_email = ''dave@example.org'', u_credits = to_double (6 / 5),
      u_pterodactyl_id = Some 14\<rparr>"

definition micro_plan :: server_plan where
  "micro_plan =
     \<lparr>sp_id = 2, sp_name = ''Micro'', sp_price = to_double (3 / 10), sp_cpu = 50, sp_ram = 512,
      sp_disk = 1024, sp_swap = 0, sp_io = 500, sp_databases = 0, sp_backups = 0,
      sp_allocations = 1, sp_egg_id = 3, sp_location_ids = ''1'', sp_docker_image = None,
      sp_startup_command = None, sp_environment_variables = None,
      sp_user_limit = 0, sp_stock_limit = 0, sp_stock_used = 0, sp_enabled = 1\<rparr>"

definition decimal_db :: db where
  "decimal_db =
     \<lparr>users = [dave],
      gift_cards = [],
      gift_card_redemptions = [],
      server_plans = [micro_plan],
      user_servers = []\<rparr>"

definition redeem_by :: "nat \<Rightarrow> string \<Rightarrow> redeem_req" where
  "redeem_by uid c = \<lparr>rq_session_userId = uid, rq_code = Some c\<rparr>"

definition purchase_by :: "nat \<Rightarrow> nat \<Rightarrow> string \<Rightarrow> purchase_req" where
  "purchase_by uid pid name =
     \<lparr>pq_session_userId = uid, pq_plan_id = Some pid, pq_server_name = Some name\<rparr>"

definition stale_cache :: api_cache where
  \<comment> \<open>An empty list for panel user 11, cached at time 500.\<close>
  "stale_cache =
     Map.empty(11 \<mapsto> \<lparr>ce_data = \<lparr>sr_success = True, sr_error = None, sr_servers = []\<rparr>,
                       ce_timestamp = 500\<rparr>)"

definition example_panel :: "int \<Rightarrow> users_response" where
  \<comment> \<open>The panel now lists one server for every user.\<close>
  "example_panel i =
     ServerList [\<lparr>ps_id = 501, ps_uuid = ''0c5e'', ps_identifier = ''a1b2c3d4'', ps_name = ''mc'',
                  ps_description = None, ps_limits = None, ps_feature_limits = None\<rparr>]"

section \<open>Auxiliary facts\<close>

lemmas db_defs = getUserById_def updateUserCredits_def getGiftCard_def incrementGiftCardUses_def
  getUserRedemptions_def redeemGiftCard_def getPlanById_def getUserServerCount_def
  incrementPlanStock_def createUserServer_def linkPterodactylUser_def

lemmas effect_defs = add_credits_def increment_uses_def insert_redemption_def
  increment_stock_def insert_user_server_def

lemmas example_defs = example_world_def alice_def bob_def carol_def save10_def basic_plan_def
  example_db_def redeem_by_def purchase_by_def

lemmas outcome_defs = InvalidCode_def CardDisabled_def CardExpired_def UsageLimitReached_def
  PerUserLimitReached_def

text \<open>The doubles of the examples. 15 and 30 are doubles; 1.2 and 0.3 are rounded.\<close>

lemma to_double_15: "to_double 15 = 15"
  by code_simp

lemma to_double_30: "to_double 30 = 30"
  by code_simp

lemma double_1_2: "to_double (6 / 5) = 5404319552844595 / 4503599627370496"
  by code_simp

lemma double_0_3: "to_double (3 / 10) = 5404319552844595 / 18014398509481984"
  by code_simp

lemma double_1_2_minus_0_3:
  "to_double (to_double (6 / 5) - to_double (3 / 10)) = 2026619832316723 / 2251799813685248"
  by code_simp

text \<open>
  Three such subtractions leave less than the double 0.3 (in exact arithmetic exactly
  0.3 would be left): the balance check refuses a fourth purchase.
\<close>

lemma double_1_2_minus_0_3_thrice:
  "to_double (to_double (to_double (to_double (6 / 5) - to_double (3 / 10))
       - to_double (3 / 10)) - to_double (3 / 10)) < to_double (3 / 10)"
  by code_simp

lemma funpow7: "(f ^^ 7) x = f (f (f (f (f (f (f x))))))"
  by (simp add: eval_nat_numeral)

lemma funpow8: "(f ^^ 8) x = f (f (f (f (f (f (f (f x)))))))"
  by (simp add: eval_nat_numeral)

lemma find_SomeD: "find P xs = Some x \<Longrightarrow> P x"
  by (induction xs) (auto split: if_splits)

lemma find_Some_mem: "find P xs = Some x \<Longrightarrow> x \<in> set xs"
  by (induction xs) (auto split: if_splits)

lemma find_map_key:
  assumes "\<And>x. k (f x) = k x"
  shows "find (\<lambda>x. k x = i) (map f xs) = map_option f (find (\<lambda>x. k x = i) xs)"
  by (induction xs) (simp_all add: assms)

text \<open>Both handlers return: every run ends at a \<open>Done\<close> point within the steps allotted.\<close>

lemma redeem_returns: "\<exists>out. fst (redeem w req d) = RDone out"
  unfolding redeem_def funpow7
  by (simp add: db_defs split: sum.splits option.splits)

lemma purchase_returns: "\<exists>out. fst (purchase w req d) = PDone out"
  unfolding purchase_def funpow8
  by (simp add: db_defs check_stock_and_account_def ensure_account_def
      split: sum.splits option.splits)

subsection \<open>Redemption\<close>

lemma redeem_checks:
  assumes "\<not> db_fails w GetUserById" "\<not> db_fails w GetGiftCard" "\<not> db_fails w GetUserRedemptions"
      and "find (\<lambda>x. u_id x = rq_session_userId req) (users d) = Some u"
      and "rq_code req = Some c"
  shows "redeem w req d =
     (case find (\<lambda>g. gc_code g = toUpperCase w c) (gift_cards d) of
        None \<Rightarrow> (RDone InvalidCode, d)
      | Some g \<Rightarrow>
          if \<not> truthy (gc_enabled g) then (RDone CardDisabled, d)
          else if expired w g then (RDone CardExpired, d)
          else if gc_max_uses g \<le> gc_uses g then (RDone UsageLimitReached, d)
          else if gc_per_user_limit g \<le> int (length (filter
                    (\<lambda>r. rd_user_id r = u_id u \<and> rd_gift_card_id r = gc_id g)
                    (gift_card_redemptions d)))
            then (RDone PerUserLimitReached, d)
          else redeem_from w req (RUpdateUserCredits u g) d)"
  using assms unfolding redeem_def redeem_from_def funpow7
  by (simp add: db_defs split: sum.splits option.splits)

lemma redeem_error_unchanged:
  "fst (redeem w req d) = RDone (RenderError m) \<Longrightarrow> snd (redeem w req d) = d"
  unfolding redeem_def funpow7
  by (auto simp: db_defs outcome_defs split: sum.splits option.splits if_splits)

lemma redeem_commit:
  "snd (redeem_from w req (RUpdateUserCredits u g) d) =
     (if db_fails w UpdateUserCredits then d
      else if db_fails w IncrementGiftCardUses then add_credits d (u_id u) (gc_credits g)
      else if db_fails w RedeemGiftCard
        then increment_uses (add_credits d (u_id u) (gc_credits g)) (gc_id g)
      else insert_redemption (increment_uses (add_credits d (u_id u) (gc_credits g)) (gc_id g))
             (u_id u) (gc_id g) (gc_credits g))"
  unfolding redeem_from_def funpow7
  by (simp add: db_defs split: sum.splits option.splits)

lemma redeem_commit_not_error:
  "fst (redeem_from w req (RUpdateUserCredits u g) d) \<noteq> RDone (RenderError m)"
  unfolding redeem_from_def funpow7
  by (simp add: db_defs split: sum.splits option.splits)

lemma outcomes_distinct:
  "distinct [InvalidCode, CardDisabled, CardExpired, UsageLimitReached, PerUserLimitReached]"
  by (simp add: outcome_defs)

subsection \<open>Purchase\<close>

lemma purchase_checks:
  assumes "\<not> db_fails w GetUserById" "\<not> db_fails w GetPlanById" "\<not> db_fails w GetUserServerCount"
      and "find (\<lambda>x. u_id x = pq_session_userId req) (users d) = Some u"
      and "pq_plan_id req = Some pid" "pq_server_name req = Some name" "name \<noteq> []"
  shows "purchase w req d =
     (case find (\<lambda>p. sp_id p = pid) (server_plans d) of
        None \<Rightarrow> (PDone PlanUnavailable, [], d)
      | Some p \<Rightarrow>
          if \<not> truthy (sp_enabled p) then (PDone PlanUnavailable, [], d)
          else if u_credits u < sp_price p then (PDone InsufficientCredits, [], d)
          else if 0 < sp_user_limit p \<and>
                  sp_user_limit p \<le> int (length (filter
                    (\<lambda>s. us_user_id s = u_id u \<and> us_plan_id s = pid \<and> us_status s = ''active'')
                    (user_servers d)))
            then (PDone UserLimitReached, [], d)
          else if 0 < sp_stock_limit p \<and> sp_stock_limit p \<le> sp_stock_used p
            then (PDone OutOfStock, [], d)
          else purchase_from w req (ensure_account w u pid name p) d)"
  using assms unfolding purchase_def purchase_from_def funpow8
  apply (simp add: db_defs check_stock_and_account_def split: sum.splits option.splits)
  apply (auto simp: ensure_account_def db_defs split: sum.splits option.splits)
  done

lemma purchase_from_create_server:
  assumes "\<And>c. \<not> db_fails w c"
  shows "purchase_from w req (PCreateServer u pid name p sd) d =
     (case createServer w sd of
        Inl err \<Rightarrow> (PDone (ProvisioningInstanceFailed err), [CallCreateServer sd], d)
      | Inr attrs \<Rightarrow>
          (PDone (PurchaseSuccess name), [CallCreateServer sd],
           insert_user_server (increment_stock (add_credits d (u_id u) (- sp_price p)) pid)
             \<lparr>us_user_id = u_id u, us_plan_id = pid, us_pterodactyl_server_id = sa_id attrs,
              us_server_name = name, us_server_identifier = sa_identifier attrs,
              us_status = ''active''\<rparr>))"
  unfolding purchase_from_def funpow8
  by (simp add: db_defs assms split: sum.splits)

lemma purchase_success_path:
  assumes "purchase w req d = (PDone (PurchaseSuccess name), cs, d')"
  shows "\<exists>u pid p n attrs.
      find (\<lambda>x. u_id x = pq_session_userId req) (users d) = Some u
    \<and> pq_plan_id req = Some pid
    \<and> pq_server_name req = Some name
    \<and> find (\<lambda>x. sp_id x = pid) (server_plans d) = Some p
    \<and> u_pterodactyl_id u = Some n
    \<and> sp_price p \<le> u_credits u
    \<and> cs = [CallCreateServer (serverData w name n p)]
    \<and> createServer w (serverData w name n p) = Inr attrs
    \<and> d' = insert_user_server (increment_stock (add_credits d (u_id u) (- sp_price p)) pid)
             \<lparr>us_user_id = u_id u, us_plan_id = pid, us_pterodactyl_server_id = sa_id attrs,
              us_server_name = name, us_server_identifier = sa_identifier attrs,
              us_status = ''active''\<rparr>"
  using assms unfolding purchase_def funpow8
  by (auto simp: db_defs check_stock_and_account_def ensure_account_def
      split: sum.splits option.splits if_splits)

lemma example_purchase:
  "purchase example_world (purchase_by 1 1 ''mc'') example_db =
     (PDone (PurchaseSuccess ''mc''),
      [CallCreateServer (serverData example_world ''mc'' 11 basic_plan)],
      insert_user_server (increment_stock (add_credits example_db 1 (- 5)) 1)
        \<lparr>us_user_id = 1, us_plan_id = 1, us_pterodactyl_server_id = 501,
         us_server_name = ''mc'', us_server_identifier = ''a1b2c3d4'', us_status = ''active''\<rparr>)"
  by (simp add: purchase_def funpow8 db_defs check_stock_and_account_def ensure_account_def
      example_defs truthy_def createServer_def)

subsection \<open>The server-list cache\<close>

lemma getUserServers_cached:
  assumes "cache u = Some e" "now w - ce_timestamp e < cacheTTL"
  shows "getUserServers_bypass panel w cache u flag = (ce_data e, cache, [])"
  by (simp add: getUserServers_bypass_def getUserServers_def getCache_def assms)

subsection \<open>Requests run one after the other\<close>

text \<open>
  A request that runs alone, from its first call to its last, keeps the bounds of the
  counters (row identifiers being unique, as the primary keys make them): the check and
  the increment then see the same row.
\<close>

lemma redeem_gift_cards_cases:
  "gift_cards (snd (redeem w req d)) = gift_cards d \<or>
   (\<exists>g. g \<in> set (gift_cards d) \<and> gc_uses g < gc_max_uses g \<and>
      gift_cards (snd (redeem w req d)) =
        map (\<lambda>x. if gc_id x = gc_id g then x\<lparr>gc_uses := gc_uses x + 1\<rparr> else x) (gift_cards d))"
  unfolding redeem_def funpow7
  by (auto simp: db_defs effect_defs dest: find_Some_mem split: sum.splits option.splits)

lemma redeem_alone_keeps_uses_bound:
  assumes ids: "distinct (map gc_id (gift_cards d))"
      and inv: "list_all (\<lambda>g. gc_uses g \<le> gc_max_uses g) (gift_cards d)"
  shows "list_all (\<lambda>g. gc_uses g \<le> gc_max_uses g) (gift_cards (snd (redeem w req d)))"
proof -
  from redeem_gift_cards_cases [of w req d] show ?thesis
  proof
    assume "gift_cards (snd (redeem w req d)) = gift_cards d"
    with inv show ?thesis by simp
  next
    assume "\<exists>g. g \<in> set (gift_cards d) \<and> gc_uses g < gc_max_uses g \<and>
      gift_cards (snd (redeem w req d)) =
        map (\<lambda>x. if gc_id x = gc_id g then x\<lparr>gc_uses := gc_uses x + 1\<rparr> else x) (gift_cards d)"
    then obtain g where g: "g \<in> set (gift_cards d)" and lt: "gc_uses g < gc_max_uses g"
      and eq: "gift_cards (snd (redeem w req d)) =
        map (\<lambda>x. if gc_id x = gc_id g then x\<lparr>gc_uses := gc_uses x + 1\<rparr> else x) (gift_cards d)"
      by blast
    have step: "gc_uses (if gc_id x = gc_id g then x\<lparr>gc_uses := gc_uses x + 1\<rparr> else x)
                 \<le> gc_max_uses (if gc_id x = gc_id g then x\<lparr>gc_uses := gc_uses x + 1\<rparr> else x)"
      if x: "x \<in> set (gift_cards d)" for x
    proof (cases "gc_id x = gc_id g")
      case True
      with ids x g have "x = g"
        by (auto simp: distinct_map inj_on_def)
      with True lt show ?thesis by simp
    next
      case False
      with inv x show ?thesis by (simp add: list_all_iff)
    qed
    show ?thesis
      unfolding eq list_all_iff
    proof
      fix y
      assume "y \<in> set (map (\<lambda>x. if gc_id x = gc_id g then x\<lparr>gc_uses := gc_uses x + 1\<rparr> else x)
                   (gift_cards d))"
      then obtain x where "x \<in> set (gift_cards d)"
        and "y = (if gc_id x = gc_id g then x\<lparr>gc_uses := gc_uses x + 1\<rparr> else x)"
        by (auto simp only: set_map)
      with step [of x] show "gc_uses y \<le> gc_max_uses y"
        by simp
    qed
  qed
qed

lemma purchase_plans_shape:
  "server_plans (snd (snd (purchase w req d))) = server_plans d \<or>
   (case pq_plan_id req of
      None \<Rightarrow> False
    | Some pid \<Rightarrow>
        (case find (\<lambda>x. sp_id x = pid) (server_plans d) of
           None \<Rightarrow> False
         | Some p \<Rightarrow>
             \<not> (0 < sp_stock_limit p \<and> sp_stock_limit p \<le> sp_stock_used p) \<and>
             server_plans (snd (snd (purchase w req d))) = server_plans (increment_stock d pid)))"
  unfolding purchase_def funpow8
  by (simp add: db_defs effect_defs check_stock_and_account_def ensure_account_def
      split: sum.splits option.splits)

lemma purchase_alone_keeps_stock_bound:
  assumes ids: "distinct (map sp_id (server_plans d))"
      and inv: "list_all (\<lambda>p. sp_stock_limit p \<le> 0 \<or> sp_stock_used p \<le> sp_stock_limit p)
                  (server_plans d)"
  shows "list_all (\<lambda>p. sp_stock_limit p \<le> 0 \<or> sp_stock_used p \<le> sp_stock_limit p)
           (server_plans (snd (snd (purchase w req d))))"
proof -
  from purchase_plans_shape [of w req d] show ?thesis
  proof
    assume "server_plans (snd (snd (purchase w req d))) = server_plans d"
    with inv show ?thesis by simp
  next
    assume "case pq_plan_id req of
      None \<Rightarrow> False
    | Some pid \<Rightarrow>
        (case find (\<lambda>x. sp_id x = pid) (server_plans d) of
           None \<Rightarrow> False
         | Some p \<Rightarrow>
             \<not> (0 < sp_stock_limit p \<and> sp_stock_limit p \<le> sp_stock_used p) \<and>
             server_plans (snd (snd (purchase w req d))) = server_plans (increment_stock d pid))"
    then obtain pid p where p: "find (\<lambda>x. sp_id x = pid) (server_plans d) = Some p"
      and ok: "\<not> (0 < sp_stock_limit p \<and> sp_stock_limit p \<le> sp_stock_used p)"
      and eq: "server_plans (snd (snd (purchase w req d))) = server_plans (increment_stock d pid)"
      by (auto split: option.splits)
    have mem: "p \<in> set (server_plans d)" and pid: "sp_id p = pid"
      using find_Some_mem [OF p] find_SomeD [OF p] by simp_all
    have step: "sp_stock_limit (if sp_id x = pid then x\<lparr>sp_stock_used := sp_stock_used x + 1\<rparr> else x) \<le> 0
        \<or> sp_stock_used (if sp_id x = pid then x\<lparr>sp_stock_used := sp_stock_used x + 1\<rparr> else x)
           \<le> sp_stock_limit (if sp_id x = pid then x\<lparr>sp_stock_used := sp_stock_used x + 1\<rparr> else x)"
      if x: "x \<in> set (server_plans d)" for x
    proof (cases "sp_id x = pid")
      case True
      with ids x mem pid have "x = p"
        by (auto simp: distinct_map inj_on_def)
      with True ok show ?thesis by auto
    next
      case False
      with inv x show ?thesis by (simp add: list_all_iff)
    qed
    show ?thesis
      unfolding eq list_all_iff increment_stock_def
    proof
      fix y
      assume "y \<in> set (server_plans (d\<lparr>server_plans :=
          map (\<lambda>p. if sp_id p = pid then p\<lparr>sp_stock_used := sp_stock_used p + 1\<rparr> else p)
            (server_plans d)\<rparr>))"
      then obtain x where "x \<in> set (server_plans d)"
        and "y = (if sp_id x = pid then x\<lparr>sp_stock_used := sp_stock_used x + 1\<rparr> else x)"
        by auto
      with step [of x] show "sp_stock_limit y \<le> 0 \<or> sp_stock_used y \<le> sp_stock_limit y"
        by simp
    qed
  qed
qed

section \<open>The claims\<close>

text \<open>
  C1. For every gift card \<open>uses \<le> max_uses\<close> is to hold in every state that interleaved
  redemption attempts reach, the increment of \<open>uses\<close> acting as a conditional update, so
  that two redemptions of a card at its last use never both succeed. In the code
  \<open>incrementGiftCardUses\<close> increments without a condition and the check of \<open>uses\<close> is
  made on the row read earlier: when Alice and Bob redeem SAVE10 (one use left) and both
  read the card before either writes, both succeed and the card ends with \<open>uses = 2\<close>
  above \<open>max_uses = 1\<close>. The increment alone, on a card already at its limit, goes above
  it as well. (Requests run one after the other keep the bound:
  \<open>redeem_alone_keeps_uses_bound\<close>.)
\<close>

theorem redeem_interleaved_exceeds_max_uses:
  "redeem_interleaved example_world [redeem_by 1 ''SAVE10'', redeem_by 2 ''SAVE10'']
     [0, 0, 0, 1, 1, 1, 0, 0, 0, 0, 1, 1, 1, 1] example_db =
     ([RDone (RenderSuccess 10 30), RDone (RenderSuccess 10 30)],
      example_db\<lparr>users := [alice\<lparr>u_credits := 30\<rparr>, bob\<lparr>u_credits := 30\<rparr>, carol],
        gift_cards := [save10\<lparr>gc_uses := 2\<rparr>],
        gift_card_redemptions :=
          [\<lparr>rd_user_id = 1, rd_gift_card_id = 1, rd_credits_received = 10\<rparr>,
           \<lparr>rd_user_id = 2, rd_gift_card_id = 1, rd_credits_received = 10\<rparr>]\<rparr>)
   \<and> gc_max_uses save10 = 1
   \<and> incrementGiftCardUses example_world (example_db\<lparr>gift_cards := [save10\<lparr>gc_uses := 1\<rparr>]\<rparr>) 1
       = Inr (example_db\<lparr>gift_cards := [save10\<lparr>gc_uses := 2\<rparr>]\<rparr>)"
  by (simp add: redeem_interleaved_def redeem_sys_step_def db_defs effect_defs example_defs
      ascii_toUpperCase_def upper_char_def truthy_def expired_def to_double_30)

text \<open>
  C2, as stated: when all five checks pass, crediting the balance, incrementing \<open>uses\<close>
  and appending the redemption record are one transaction, so that a storage failure
  leaves all three writes or none. It fails: when the increment rejects, Alice's balance
  has gone from 20 to 30 while the card still has \<open>uses = 0\<close> and no redemption is
  recorded.
\<close>

theorem redeem_partial_commit_counterexample:
  "map u_credits (users example_db) = [20, 20, 3]
   \<and> map u_credits (users (snd (redeem
        (example_world\<lparr>db_fails := (\<lambda>c. c = IncrementGiftCardUses)\<rparr>)
        (redeem_by 1 ''SAVE10'') example_db))) = [30, 20, 3]
   \<and> map gc_uses (gift_cards (snd (redeem
        (example_world\<lparr>db_fails := (\<lambda>c. c = IncrementGiftCardUses)\<rparr>)
        (redeem_by 1 ''SAVE10'') example_db))) = [0]
   \<and> gift_card_redemptions (snd (redeem
        (example_world\<lparr>db_fails := (\<lambda>c. c = IncrementGiftCardUses)\<rparr>)
        (redeem_by 1 ''SAVE10'') example_db)) = []"
  by (simp add: redeem_def funpow7 db_defs effect_defs example_defs ascii_toUpperCase_def
      upper_char_def truthy_def expired_def to_double_30)

text \<open>
  C2, amended: when all five checks pass, the three writes are three statements issued
  one after the other, in the order credit, increment, record, with no transaction
  around them. Without a storage failure all three take effect; a failure of a write ends
  the request and leaves in effect exactly the writes issued before it (none when the
  credit fails, the credit alone when the increment fails, credit and increment when the
  insertion of the record fails).
\<close>

theorem redeem_commit_without_transaction:
  assumes "\<not> db_fails w GetUserById" "\<not> db_fails w GetGiftCard" "\<not> db_fails w GetUserRedemptions"
      and "find (\<lambda>x. u_id x = rq_session_userId req) (users d) = Some u"
      and "rq_code req = Some c"
      and "find (\<lambda>x. gc_code x = toUpperCase w c) (gift_cards d) = Some g"
      and "truthy (gc_enabled g)" "\<not> expired w g" "gc_uses g < gc_max_uses g"
      and "int (length (filter (\<lambda>r. rd_user_id r = u_id u \<and> rd_gift_card_id r = gc_id g)
                  (gift_card_redemptions d))) < gc_per_user_limit g"
  shows "snd (redeem w req d) =
     (if db_fails w UpdateUserCredits then d
      else if db_fails w IncrementGiftCardUses then add_credits d (u_id u) (gc_credits g)
      else if db_fails w RedeemGiftCard
        then increment_uses (add_credits d (u_id u) (gc_credits g)) (gc_id g)
      else insert_redemption (increment_uses (add_credits d (u_id u) (gc_credits g)) (gc_id g))
             (u_id u) (gc_id g) (gc_credits g))"
proof -
  have "redeem w req d = redeem_from w req (RUpdateUserCredits u g) d"
    using assms by (simp add: redeem_checks)
  then show ?thesis by (simp only: redeem_commit)
qed

theorem redeem_commit_without_transaction_witness:
  "snd (redeem example_world (redeem_by 1 ''save10'') example_db) =
     insert_redemption (increment_uses (add_credits example_db 1 10) 1) 1 1 10"
  using redeem_commit_without_transaction [where w = example_world and d = example_db
      and req = "redeem_by 1 ''save10''" and u = alice and c = "''save10''" and g = save10]
  by (simp add: example_defs ascii_toUpperCase_def upper_char_def truthy_def expired_def)

text \<open>
  C3. For every plan with \<open>stock_limit > 0\<close>, \<open>stock_used \<le> stock_limit\<close> is to hold in
  every state that interleaved purchase attempts reach, so that two purchases at the last
  unit of stock never both succeed. In the code the stock check reads the plan row
  fetched earlier and \<open>incrementPlanStock\<close> increments without a condition: when Alice
  and Bob buy the Basic plan (one unit left) and both read the plan before either
  writes, both purchases succeed and the plan ends with \<open>stock_used = 2\<close> above
  \<open>stock_limit = 1\<close>. (Requests run one after the other keep the bound:
  \<open>purchase_alone_keeps_stock_bound\<close>.)
\<close>

theorem purchase_interleaved_exceeds_stock_limit:
  "purchase_interleaved example_world [purchase_by 1 1 ''one'', purchase_by 2 1 ''two'']
     [0, 0, 1, 1, 0, 0, 0, 0, 1, 1, 1, 1] example_db =
     ([(PDone (PurchaseSuccess ''one''),
        [CallCreateServer (serverData example_world ''one'' 11 basic_plan)]),
       (PDone (PurchaseSuccess ''two''),
        [CallCreateServer (serverData example_world ''two'' 12 basic_plan)])],
      example_db\<lparr>users := [alice\<lparr>u_credits := 15\<rparr>, bob\<lparr>u_credits := 15\<rparr>, carol],
        server_plans := [basic_plan\<lparr>sp_stock_used := 2\<rparr>],
        user_servers :=
          [\<lparr>us_user_id = 1, us_plan_id = 1, us_pterodactyl_server_id = 501,
            us_server_name = ''one'', us_server_identifier = ''a1b2c3d4'',
            us_status = ''active''\<rparr>,
           \<lparr>us_user_id = 2, us_plan_id = 1, us_pterodactyl_server_id = 501,
            us_server_name = ''two'', us_server_identifier = ''a1b2c3d4'',
            us_status = ''active''\<rparr>]\<rparr>)
   \<and> sp_stock_limit basic_plan = 1"
  by (simp add: purchase_interleaved_def purchase_sys_step_def db_defs effect_defs example_defs
      check_stock_and_account_def ensure_account_def truthy_def createServer_def to_double_15)

text \<open>
  C4. If the panel's create-server call fails during a purchase, the outcome is
  \<open>ProvisioningInstanceFailed\<close> and the store is as it was: no balance, no \<open>stock_used\<close>
  counter and no instance record has changed. (Nothing else has changed either: a
  request that had to create the panel account first ends in \<open>linkPterodactylUser\<close>
  before it reaches the create-server call.)
\<close>

theorem create_server_failure_leaves_store:
  assumes "purchase w req d = (out, cs, d')"
      and "CallCreateServer sd \<in> set cs"
      and "createServer w sd = Inl err"
  shows "out = PDone (ProvisioningInstanceFailed err)
       \<and> map u_credits (users d') = map u_credits (users d)
       \<and> map sp_stock_used (server_plans d') = map sp_stock_used (server_plans d)
       \<and> user_servers d' = user_servers d
       \<and> d' = d"
  using assms unfolding purchase_def funpow8
  by (auto simp: db_defs check_stock_and_account_def ensure_account_def
      split: sum.splits option.splits if_splits)

theorem create_server_failure_leaves_store_witness:
  "purchase (example_world\<lparr>post_servers := (\<lambda>sd. Inl ''No node available'')\<rparr>)
     (purchase_by 1 1 ''mc'') example_db =
     (PDone (ProvisioningInstanceFailed ''No node available''),
      [CallCreateServer (serverData example_world ''mc'' 11 basic_plan)], example_db)"
proof -
  obtain out cs d' where run:
    "purchase (example_world\<lparr>post_servers := (\<lambda>sd. Inl ''No node available'')\<rparr>)
       (purchase_by 1 1 ''mc'') example_db = (out, cs, d')"
    by (metis prod_cases3)
  have cs: "cs = [CallCreateServer (serverData example_world ''mc'' 11 basic_plan)]"
    using run
    by (simp add: purchase_def funpow8 db_defs check_stock_and_account_def ensure_account_def
        example_defs truthy_def createServer_def serverData_def parse_environment_def
        parse_location_ids_def)
  have "out = PDone (ProvisioningInstanceFailed ''No node available'') \<and> d' = example_db"
    using create_server_failure_leaves_store [OF run,
        where sd = "serverData example_world ''mc'' 11 basic_plan"
          and err = "''No node available''"]
    by (simp add: cs createServer_def example_world_def)
  with run cs show ?thesis by simp
qed

text \<open>
  C5, as stated: a successful purchase with price \<open>p\<close> and prior balance \<open>b \<ge> p\<close> leaves
  the balance exactly \<open>b - p\<close>, \<open>stock_used\<close> one higher and exactly one new instance
  record with the identifier that the create-server call returned. The balance part
  fails: credits and prices are doubles and the store adds them as doubles. Dave, with
  the double 1.2, buys the Micro plan at the double 0.3; the purchase succeeds and the
  balance stored is 2026619832316723 / 2^51 (printed 0.8999999999999999), which is not
  the difference of the two amounts.
\<close>

theorem purchase_balance_rounded_counterexample:
  "fst (purchase example_world (purchase_by 4 2 ''mc'') decimal_db) = PDone (PurchaseSuccess ''mc'')
   \<and> sp_price micro_plan \<le> u_credits dave
   \<and> map u_credits (users (snd (snd (purchase example_world (purchase_by 4 2 ''mc'') decimal_db))))
       = [2026619832316723 / 2251799813685248]
   \<and> u_credits dave - sp_price micro_plan = 16212958658533785 / 18014398509481984
   \<and> map u_credits (users (snd (snd (purchase example_world (purchase_by 4 2 ''mc'') decimal_db))))
       \<noteq> [u_credits dave - sp_price micro_plan]"
proof -
  have run: "purchase example_world (purchase_by 4 2 ''mc'') decimal_db =
     (PDone (PurchaseSuccess ''mc''),
      [CallCreateServer (serverData example_world ''mc'' 14 micro_plan)],
      insert_user_server (increment_stock (add_credits decimal_db 4 (- sp_price micro_plan)) 2)
        \<lparr>us_user_id = 4, us_plan_id = 2, us_pterodactyl_server_id = 501,
         us_server_name = ''mc'', us_server_identifier = ''a1b2c3d4'', us_status = ''active''\<rparr>)"
    by (simp add: purchase_def funpow8 db_defs check_stock_and_account_def ensure_account_def
        example_world_def dave_def micro_plan_def decimal_db_def purchase_by_def truthy_def
        createServer_def double_1_2 double_0_3)
  have stored: "map u_credits (users
      (insert_user_server (increment_stock (add_credits decimal_db 4 (- sp_price micro_plan)) 2)
        \<lparr>us_user_id = 4, us_plan_id = 2, us_pterodactyl_server_id = 501,
         us_server_name = ''mc'', us_server_identifier = ''a1b2c3d4'', us_status = ''active''\<rparr>))
      = [to_double (to_double (6 / 5) - to_double (3 / 10))]"
    by (simp add: effect_defs decimal_db_def dave_def micro_plan_def)
  have le: "sp_price micro_plan \<le> u_credits dave"
    by (simp add: dave_def micro_plan_def double_1_2 double_0_3)
  have diff: "u_credits dave - sp_price micro_plan = 16212958658533785 / 18014398509481984"
    by (simp add: dave_def micro_plan_def double_1_2 double_0_3)
  show ?thesis
    unfolding run
    by (simp add: stored le diff double_1_2_minus_0_3)
qed

text \<open>
  C5, amended: a successful purchase with price \<open>p\<close> and prior balance \<open>b\<close> has \<open>p \<le> b\<close>
  and leaves the user with the balance that the store's addition of doubles gives, the
  double nearest to \<open>b - p\<close> (15 for balance 20 and price 5), the plan with \<open>stock_used\<close>
  one higher, and exactly one more instance record, appended to the table, whose panel
  server identifier is the one that the create-server call returned.
\<close>

theorem purchase_success_effects:
  assumes "purchase w req d = (PDone (PurchaseSuccess name), cs, d')"
  shows "\<exists>u pid p attrs sd.
      find (\<lambda>x. u_id x = pq_session_userId req) (users d) = Some u
    \<and> pq_plan_id req = Some pid
    \<and> find (\<lambda>x. sp_id x = pid) (server_plans d) = Some p
    \<and> sp_price p \<le> u_credits u
    \<and> cs = [CallCreateServer sd]
    \<and> createServer w sd = Inr attrs
    \<and> find (\<lambda>x. u_id x = pq_session_userId req) (users d')
        = Some (u\<lparr>u_credits := to_double (u_credits u - sp_price p)\<rparr>)
    \<and> find (\<lambda>x. sp_id x = pid) (server_plans d')
        = Some (p\<lparr>sp_stock_used := sp_stock_used p + 1\<rparr>)
    \<and> user_servers d' = user_servers d @
         [\<lparr>us_user_id = u_id u, us_plan_id = pid, us_pterodactyl_server_id = sa_id attrs,
           us_server_name = name, us_server_identifier = sa_identifier attrs,
           us_status = ''active''\<rparr>]"
proof -
  from purchase_success_path [OF assms] obtain u pid p n attrs where
    u: "find (\<lambda>x. u_id x = pq_session_userId req) (users d) = Some u"
    and pid: "pq_plan_id req = Some pid"
    and p: "find (\<lambda>x. sp_id x = pid) (server_plans d) = Some p"
    and le: "sp_price p \<le> u_credits u"
    and cs: "cs = [CallCreateServer (serverData w name n p)]"
    and ok: "createServer w (serverData w name n p) = Inr attrs"
    and d': "d' = insert_user_server (increment_stock (add_credits d (u_id u) (- sp_price p)) pid)
             \<lparr>us_user_id = u_id u, us_plan_id = pid, us_pterodactyl_server_id = sa_id attrs,
              us_server_name = name, us_server_identifier = sa_identifier attrs,
              us_status = ''active''\<rparr>"
    by blast
  have uid: "u_id u = pq_session_userId req"
    using find_SomeD [OF u] .
  have spid: "sp_id p = pid"
    using find_SomeD [OF p] .
  have users': "users d' =
      map (\<lambda>x. if u_id x = u_id u then x\<lparr>u_credits := to_double (u_credits x + - sp_price p)\<rparr>
                else x)
        (users d)"
    by (simp add: d' effect_defs)
  have plans': "server_plans d' =
      map (\<lambda>x. if sp_id x = pid then x\<lparr>sp_stock_used := sp_stock_used x + 1\<rparr> else x)
        (server_plans d)"
    by (simp add: d' effect_defs)
  have fu: "find (\<lambda>x. u_id x = pq_session_userId req) (users d')
        = Some (u\<lparr>u_credits := to_double (u_credits u - sp_price p)\<rparr>)"
    unfolding users' by (subst find_map_key) (simp_all add: u uid)
  have fp: "find (\<lambda>x. sp_id x = pid) (server_plans d')
        = Some (p\<lparr>sp_stock_used := sp_stock_used p + 1\<rparr>)"
    unfolding plans' by (subst find_map_key) (simp_all add: p spid)
  have us: "user_servers d' = user_servers d @
         [\<lparr>us_user_id = u_id u, us_plan_id = pid, us_pterodactyl_server_id = sa_id attrs,
           us_server_name = name, us_server_identifier = sa_identifier attrs,
           us_status = ''active''\<rparr>]"
    by (simp add: d' effect_defs)
  show ?thesis
    using u pid p le cs ok fu fp us by blast
qed

text \<open>
  The scenario of the specification: price 5, balance 20. The purchase succeeds, and the
  theorem at this run gives the balance 15, \<open>stock_used\<close> 1 and the one record with the
  returned identifier 501.
\<close>

theorem purchase_success_effects_witness:
  "fst (purchase example_world (purchase_by 1 1 ''mc'') example_db) = PDone (PurchaseSuccess ''mc'')
   \<and> find (\<lambda>x. u_id x = 1)
        (users (snd (snd (purchase example_world (purchase_by 1 1 ''mc'') example_db))))
       = Some (alice\<lparr>u_credits := 15\<rparr>)
   \<and> find (\<lambda>x. sp_id x = 1)
        (server_plans (snd (snd (purchase example_world (purchase_by 1 1 ''mc'') example_db))))
       = Some (basic_plan\<lparr>sp_stock_used := 1\<rparr>)
   \<and> user_servers (snd (snd (purchase example_world (purchase_by 1 1 ''mc'') example_db)))
       = [\<lparr>us_user_id = 1, us_plan_id = 1, us_pterodactyl_server_id = 501,
           us_server_name = ''mc'', us_server_identifier = ''a1b2c3d4'', us_status = ''active''\<rparr>]"
proof -
  from purchase_success_effects [OF example_purchase] obtain u pid p attrs sd where
    u: "find (\<lambda>x. u_id x = pq_session_userId (purchase_by 1 1 ''mc'')) (users example_db) = Some u"
    and pid: "pq_plan_id (purchase_by 1 1 ''mc'') = Some pid"
    and p: "find (\<lambda>x. sp_id x = pid) (server_plans example_db) = Some p"
    and sd: "[CallCreateServer (serverData example_world ''mc'' 11 basic_plan)] = [CallCreateServer sd]"
    and ok: "createServer example_world sd = Inr attrs"
    and fu: "find (\<lambda>x. u_id x = pq_session_userId (purchase_by 1 1 ''mc''))
        (users (insert_user_server (increment_stock (add_credits example_db 1 (- 5)) 1)
          \<lparr>us_user_id = 1, us_plan_id = 1, us_pterodactyl_server_id = 501,
           us_server_name = ''mc'', us_server_identifier = ''a1b2c3d4'', us_status = ''active''\<rparr>))
        = Some (u\<lparr>u_credits := to_double (u_credits u - sp_price p)\<rparr>)"
    and fp: "find (\<lambda>x. sp_id x = pid)
        (server_plans (insert_user_server (increment_stock (add_credits example_db 1 (- 5)) 1)
          \<lparr>us_user_id = 1, us_plan_id = 1, us_pterodactyl_server_id = 501,
           us_server_name = ''mc'', us_server_identifier = ''a1b2c3d4'', us_status = ''active''\<rparr>))
        = Some (p\<lparr>sp_stock_used := sp_stock_used p + 1\<rparr>)"
    and us: "user_servers (insert_user_server (increment_stock (add_credits example_db 1 (- 5)) 1)
          \<lparr>us_user_id = 1, us_plan_id = 1, us_pterodactyl_server_id = 501,
           us_server_name = ''mc'', us_server_identifier = ''a1b2c3d4'', us_status = ''active''\<rparr>)
        = user_servers example_db @
         [\<lparr>us_user_id = u_id u, us_plan_id = pid, us_pterodactyl_server_id = sa_id attrs,
           us_server_name = ''mc'', us_server_identifier = sa_identifier attrs,
           us_status = ''active''\<rparr>]"
    by blast
  have u_eq: "u = alice"
    using u by (simp add: example_defs)
  have pid_eq: "pid = 1"
    using pid by (simp add: purchase_by_def)
  have p_eq: "p = basic_plan"
    using p by (simp add: pid_eq example_defs)
  have attrs_eq: "attrs = \<lparr>sa_id = 501, sa_identifier = ''a1b2c3d4''\<rparr>"
    using ok by (simp add: createServer_def example_world_def)
  show ?thesis
    unfolding example_purchase
    using fu fp us
    by (simp add: u_eq pid_eq p_eq attrs_eq effect_defs example_defs to_double_15)
qed

text \<open>
  C6. The redemption checks short-circuit, the first failure deciding the outcome, in the
  order: the card exists (else \<open>InvalidCode\<close>), it is enabled (else \<open>CardDisabled\<close>),
  it has not expired (else \<open>CardExpired\<close>), \<open>uses < max_uses\<close> (else
  \<open>UsageLimitReached\<close>), the user's earlier redemptions of the card are fewer than
  \<open>per_user_limit\<close> (else \<open>PerUserLimitReached\<close>); the five messages differ from one
  another; and a request that ends in a check failure leaves the store as it was.
\<close>

theorem redeem_validation_sequence:
  assumes "\<not> db_fails w GetUserById" "\<not> db_fails w GetGiftCard" "\<not> db_fails w GetUserRedemptions"
      and "find (\<lambda>x. u_id x = rq_session_userId req) (users d) = Some u"
      and "rq_code req = Some c"
  shows "redeem w req d =
     (case find (\<lambda>g. gc_code g = toUpperCase w c) (gift_cards d) of
        None \<Rightarrow> (RDone InvalidCode, d)
      | Some g \<Rightarrow>
          if \<not> truthy (gc_enabled g) then (RDone CardDisabled, d)
          else if expired w g then (RDone CardExpired, d)
          else if gc_max_uses g \<le> gc_uses g then (RDone UsageLimitReached, d)
          else if gc_per_user_limit g \<le> int (length (filter
                    (\<lambda>r. rd_user_id r = u_id u \<and> rd_gift_card_id r = gc_id g)
                    (gift_card_redemptions d)))
            then (RDone PerUserLimitReached, d)
          else redeem_from w req (RUpdateUserCredits u g) d)
   \<and> distinct [InvalidCode, CardDisabled, CardExpired, UsageLimitReached, PerUserLimitReached]
   \<and> (\<forall>m. fst (redeem w req d) = RDone (RenderError m) \<longrightarrow> snd (redeem w req d) = d)"
proof (intro conjI allI impI)
  show "redeem w req d =
     (case find (\<lambda>g. gc_code g = toUpperCase w c) (gift_cards d) of
        None \<Rightarrow> (RDone InvalidCode, d)
      | Some g \<Rightarrow>
          if \<not> truthy (gc_enabled g) then (RDone CardDisabled, d)
          else if expired w g then (RDone CardExpired, d)
          else if gc_max_uses g \<le> gc_uses g then (RDone UsageLimitReached, d)
          else if gc_per_user_limit g \<le> int (length (filter
                    (\<lambda>r. rd_user_id r = u_id u \<and> rd_gift_card_id r = gc_id g)
                    (gift_card_redemptions d)))
            then (RDone PerUserLimitReached, d)
          else redeem_from w req (RUpdateUserCredits u g) d)"
    using assms by (rule redeem_checks)
next
  show "distinct [InvalidCode, CardDisabled, CardExpired, UsageLimitReached, PerUserLimitReached]"
    by (rule outcomes_distinct)
next
  fix m
  assume "fst (redeem w req d) = RDone (RenderError m)"
  then show "snd (redeem w req d) = d"
    by (rule redeem_error_unchanged)
qed

text \<open>
  At a card whose single use is taken (and which Alice has not redeemed herself) the
  fourth check decides: \<open>UsageLimitReached\<close>, store unchanged.
\<close>

theorem redeem_validation_sequence_witness:
  "redeem example_world (redeem_by 1 ''save10'') (increment_uses example_db 1) =
     (RDone UsageLimitReached, increment_uses example_db 1)"
  using redeem_validation_sequence [where w = example_world
      and d = "increment_uses example_db 1" and req = "redeem_by 1 ''save10''"
      and u = alice and c = "''save10''"]
  by (simp add: example_defs effect_defs ascii_toUpperCase_def upper_char_def truthy_def expired_def)

text \<open>
  C7. The purchase checks short-circuit in the order: the plan exists and is enabled
  (else \<open>PlanUnavailable\<close>), the balance is at least the price (else
  \<open>InsufficientCredits\<close>), the per-user limit when \<open>user_limit > 0\<close> (else
  \<open>UserLimitReached\<close>), the stock limit when \<open>stock_limit > 0\<close> (else \<open>OutOfStock\<close>).
  Each of these outcomes is reached with no call to the panel and the store unchanged; in
  particular a balance below the price of an enabled plan gives \<open>InsufficientCredits\<close>
  before any panel call.
\<close>

theorem purchase_validation_sequence:
  assumes "\<not> db_fails w GetUserById" "\<not> db_fails w GetPlanById" "\<not> db_fails w GetUserServerCount"
      and "find (\<lambda>x. u_id x = pq_session_userId req) (users d) = Some u"
      and "pq_plan_id req = Some pid" "pq_server_name req = Some name" "name \<noteq> []"
  shows "purchase w req d =
     (case find (\<lambda>p. sp_id p = pid) (server_plans d) of
        None \<Rightarrow> (PDone PlanUnavailable, [], d)
      | Some p \<Rightarrow>
          if \<not> truthy (sp_enabled p) then (PDone PlanUnavailable, [], d)
          else if u_credits u < sp_price p then (PDone InsufficientCredits, [], d)
          else if 0 < sp_user_limit p \<and>
                  sp_user_limit p \<le> int (length (filter
                    (\<lambda>s. us_user_id s = u_id u \<and> us_plan_id s = pid \<and> us_status s = ''active'')
                    (user_servers d)))
            then (PDone UserLimitReached, [], d)
          else if 0 < sp_stock_limit p \<and> sp_stock_limit p \<le> sp_stock_used p
            then (PDone OutOfStock, [], d)
          else purchase_from w req (ensure_account w u pid name p) d)"
  using assms by (rule purchase_checks)

text \<open>Carol has 3 credits, the plan costs 5: no panel call, nothing written.\<close>

theorem purchase_validation_sequence_witness:
  "purchase example_world (purchase_by 3 1 ''mc'') example_db =
     (PDone InsufficientCredits, [], example_db)"
  using purchase_validation_sequence [where w = example_world
      and req = "purchase_by 3 1 ''mc''" and d = example_db and u = carol and pid = 1
      and name = "''mc''"]
  by (simp add: example_defs truthy_def)

text \<open>
  C8, as stated: the code is trimmed and upper-cased before the lookup, so that a code
  that differs from a stored code only in case or in surrounding white space is found.
  It fails for white space: \<open>'' SAVE10''\<close> trims and upper-cases to the stored code
  \<open>''SAVE10''\<close>, and redeeming it gives \<open>InvalidCode\<close>.
\<close>

theorem redeem_does_not_trim_counterexample:
  "toUpperCase example_world (trim '' SAVE10'') = gc_code save10
   \<and> find (\<lambda>g. gc_code g = gc_code save10) (gift_cards example_db) = Some save10
   \<and> fst (redeem example_world (redeem_by 1 '' SAVE10'') example_db) = RDone InvalidCode"
  by (simp add: redeem_def funpow7 db_defs example_defs ascii_toUpperCase_def upper_char_def
      trim_def is_space_def)

text \<open>
  C8, amended: for every input code string, the code is upper-cased by the built-in
  \<open>toUpperCase\<close>, and not trimmed, before the lookup: a redemption ends in \<open>InvalidCode\<close>
  exactly when no stored card's code equals the upper-cased input. So a code whose
  upper-casing is a stored code is found whatever its letter case, and white space
  around a code stays in the key that is looked up. The built-in is a parameter: the
  statement holds for whatever it maps a string to.
\<close>

theorem redeem_looks_up_uppercased_code:
  assumes "\<not> db_fails w GetUserById" "\<not> db_fails w GetGiftCard" "\<not> db_fails w GetUserRedemptions"
      and "find (\<lambda>x. u_id x = rq_session_userId req) (users d) = Some u"
      and "rq_code req = Some c"
  shows "(fst (redeem w req d) = RDone InvalidCode) =
         (\<forall>g \<in> set (gift_cards d). gc_code g \<noteq> toUpperCase w c)"
proof -
  have "(fst (redeem w req d) = RDone InvalidCode) =
        (find (\<lambda>g. gc_code g = toUpperCase w c) (gift_cards d) = None)"
    using assms redeem_commit_not_error [of w req]
    by (simp add: redeem_checks outcome_defs split: option.splits)
  then show ?thesis
    by (auto simp: find_None_iff)
qed

theorem redeem_looks_up_uppercased_code_witness:
  "fst (redeem example_world (redeem_by 1 ''Save10'') example_db) \<noteq> RDone InvalidCode"
  using redeem_looks_up_uppercased_code [where w = example_world and d = example_db
      and req = "redeem_by 1 ''Save10''" and u = alice and c = "''Save10''"]
  by (simp add: example_defs ascii_toUpperCase_def upper_char_def)

text \<open>
  C9. \<open>getUserServers\<close> may answer from its cache (entries live for 60000 ms), and with
  the bypass flag set it is to skip the cache and fetch afresh. In the code the method
  takes the user identifier only, so the \<open>true\<close> that \<open>POST /api/sync-servers\<close> passes is
  dropped: at time 1000, with an empty list cached at time 500 for panel user 11, the
  call with the flag returns the cached empty list and sends nothing to the panel, which
  by now lists one server (a fetch with an empty cache returns it).
\<close>

theorem sync_servers_served_from_cache:
  "getUserServers_bypass example_panel example_world stale_cache 11 True =
     (\<lparr>sr_success = True, sr_error = None, sr_servers = []\<rparr>, stale_cache, [])
   \<and> fst (getUserServers example_panel example_world Map.empty 11) =
     \<lparr>sr_success = True, sr_error = None,
      sr_servers =
        [\<lparr>ms_id = 501, ms_uuid = ''0c5e'', ms_identifier = ''a1b2c3d4'', ms_name = ''mc'',
          ms_description = [], ms_status = ''running'',
          ms_limits = JObj [(''cpu'', JNum 0), (''memory'', JNum 0), (''disk'', JNum 0)],
          ms_feature_limits = JObj []\<rparr>]\<rparr>"
  by (simp add: getUserServers_bypass_def getUserServers_def getCache_def stale_cache_def
      example_panel_def example_world_def cacheTTL_def map_server_def or_default_def)

text \<open>
  C10. If the plan's stored environment variables are present and are not valid JSON, the
  purchase does not fail for it: the request to the panel is built with the empty
  environment map, it is sent, and the purchase ends as the panel's answer decides
  (success with the three writes, or \<open>ProvisioningInstanceFailed\<close>).
\<close>

theorem invalid_environment_json_ignored:
  assumes env: "sp_environment_variables p = Some s" "JSON_parse w s = None"
      and nofail: "\<And>c. \<not> db_fails w c"
      and u: "find (\<lambda>x. u_id x = pq_session_userId req) (users d) = Some u"
      and acct: "u_pterodactyl_id u = Some n" "n \<noteq> 0"
      and req: "pq_plan_id req = Some pid" "pq_server_name req = Some name" "name \<noteq> []"
      and p: "find (\<lambda>x. sp_id x = pid) (server_plans d) = Some p"
      and checks: "truthy (sp_enabled p)" "sp_price p \<le> u_credits u"
        "\<not> (0 < sp_user_limit p \<and>
            sp_user_limit p \<le> int (length (filter
              (\<lambda>s. us_user_id s = u_id u \<and> us_plan_id s = pid \<and> us_status s = ''active'')
              (user_servers d))))"
        "\<not> (0 < sp_stock_limit p \<and> sp_stock_limit p \<le> sp_stock_used p)"
  shows "sd_environment (serverData w name n p) = JObj []
       \<and> purchase w req d =
          (case createServer w (serverData w name n p) of
             Inl err \<Rightarrow>
               (PDone (ProvisioningInstanceFailed err),
                [CallCreateServer (serverData w name n p)], d)
           | Inr attrs \<Rightarrow>
               (PDone (PurchaseSuccess name), [CallCreateServer (serverData w name n p)],
                insert_user_server (increment_stock (add_credits d (u_id u) (- sp_price p)) pid)
                  \<lparr>us_user_id = u_id u, us_plan_id = pid, us_pterodactyl_server_id = sa_id attrs,
                   us_server_name = name, us_server_identifier = sa_identifier attrs,
                   us_status = ''active''\<rparr>))"
proof
  show "sd_environment (serverData w name n p) = JObj []"
    by (simp add: serverData_def parse_environment_def env)
next
  have "purchase w req d = purchase_from w req (ensure_account w u pid name p) d"
    using purchase_checks [OF nofail nofail nofail u req] p checks by simp
  also have "ensure_account w u pid name p = PCreateServer u pid name p (serverData w name n p)"
    by (simp add: ensure_account_def acct)
  finally show "purchase w req d =
          (case createServer w (serverData w name n p) of
             Inl err \<Rightarrow>
               (PDone (ProvisioningInstanceFailed err),
                [CallCreateServer (serverData w name n p)], d)
           | Inr attrs \<Rightarrow>
               (PDone (PurchaseSuccess name), [CallCreateServer (serverData w name n p)],
                insert_user_server (increment_stock (add_credits d (u_id u) (- sp_price p)) pid)
                  \<lparr>us_user_id = u_id u, us_plan_id = pid, us_pterodactyl_server_id = sa_id attrs,
                   us_server_name = name, us_server_identifier = sa_identifier attrs,
                   us_status = ''active''\<rparr>))"
    by (simp add: purchase_from_create_server [OF nofail])
qed

text \<open>
  The Basic plan stores \<open>{SERVER_JARFILE: server.jar\<close>, which does not parse; Alice's
  purchase of it succeeds with an empty environment.
\<close>

theorem invalid_environment_json_ignored_witness:
  "sp_environment_variables basic_plan = Some ''{SERVER_JARFILE: server.jar''
   \<and> JSON_parse example_world ''{SERVER_JARFILE: server.jar'' = None
   \<and> sd_environment (serverData example_world ''mc'' 11 basic_plan) = JObj []
   \<and> purchase example_world (purchase_by 1 1 ''mc'') example_db =
      (PDone (PurchaseSuccess ''mc''),
       [CallCreateServer (serverData example_world ''mc'' 11 basic_plan)],
       insert_user_server (increment_stock (add_credits example_db 1 (- 5)) 1)
         \<lparr>us_user_id = 1, us_plan_id = 1, us_pterodactyl_server_id = 501,
          us_server_name = ''mc'', us_server_identifier = ''a1b2c3d4'', us_status = ''active''\<rparr>)"
  using invalid_environment_json_ignored [where w = example_world
      and req = "purchase_by 1 1 ''mc''" and d = example_db and u = alice and n = 11
      and pid = 1 and name = "''mc''" and p = basic_plan
      and s = "''{SERVER_JARFILE: server.jar''"]
  by (simp add: example_defs truthy_def createServer_def)

end
